theory Spec2Isabelle
  imports Complex_Main "HOL-Library.Word"
begin

section \<open>JavaScript values\<close>

text \<open>
  A JavaScript string is a sequence of UTF-16 code units. Identifiers that occur in the
  source as ASCII literals (dialog names, log messages) are kept as HOL strings.
  A thrown value or the reason of a rejected promise is a \<open>jserror\<close>. A call that the
  source awaits settles to a value of \<open>jserror + 'a\<close>: \<open>Inl\<close> is the rejection, which the
  \<^verbatim>\<open>await\<close> rethrows, \<open>Inr\<close> the value the promise resolves to.
\<close>

type_synonym jsstring = "16 word list"

datatype jserror = Error string

text \<open>
  \<^verbatim>\<open>String.prototype.trim\<close> removes the code units of the ECMAScript productions
  WhiteSpace and LineTerminator from both ends of the string.
\<close>

definition isWhiteSpace :: "16 word \<Rightarrow> bool" where
  "isWhiteSpace c =
     (c \<in> {0x0009, 0x000A, 0x000B, 0x000C, 0x000D, 0x0020, 0x00A0, 0x1680,
            0x2028, 0x2029, 0x202F, 0x205F, 0x3000, 0xFEFF}
      \<or> (0x2000 \<le> c \<and> c \<le> 0x200A))"

definition trim :: "jsstring \<Rightarrow> jsstring" where
  "trim s = rev (dropWhile isWhiteSpace (rev (dropWhile isWhiteSpace s)))"

section \<open>The crypto collaborator\<close>

text \<open>
  \<^verbatim>\<open>matrixClient.getCrypto()\<close> returns the crypto API of the SDK or \<^verbatim>\<open>undefined\<close>. The
  API is modelled by what each of its asynchronous methods settles to when the component
  calls it. The calls a component makes, and the callbacks and log lines it produces, are
  recorded as a list of effects, in the order in which they happen.
\<close>

record PrivateKeysCachedLocally =
  masterKey :: bool
  selfSigningKey :: bool
  userSigningKey :: bool

record CrossSigningStatus =
  publicKeysOnDevice :: bool
  privateKeysInSecretStorage :: bool
  privateKeysCachedLocally :: PrivateKeysCachedLocally

record GeneratedSecretStorageKey =
  privateKey :: "8 word list"
  encodedPrivateKey :: "jsstring option"

record CreateSecretStorageOpts =
  setupNewKeyBackup :: bool
  setupNewSecretStorage :: bool
  createSecretStorageKey :: GeneratedSecretStorageKey

record CryptoApi =
  getSessionBackupPrivateKey :: "jserror + 8 word list option"
  getCrossSigningStatus :: "jserror + CrossSigningStatus"
  createRecoveryKeyFromPassphrase :: "jserror + GeneratedSecretStorageKey"
  bootstrapSecretStorage :: "CreateSecretStorageOpts \<Rightarrow> jserror + unit"

datatype effect =
    GetSessionBackupPrivateKey
  | GetCrossSigningStatus
  | CreateRecoveryKeyFromPassphrase
  | BootstrapSecretStorage CreateSecretStorageOpts
  | EnableKeyCache
  | DisableKeyCache
  | LoggerError string jserror
  | OnFinish
  | OnCancelClick
  | CopyPlaintext jsstring

section \<open>RecoveryPanel\<close>

text \<open>The type \<^verbatim>\<open>State\<close> of RecoveryPanel.tsx.\<close>

datatype RecoveryPanelState = loading | missing_backup | secrets_not_cached | good

text \<open>
  \<^verbatim>\<open>checkEncryption\<close>: the panel's state after the check, the probes it made and how the
  returned promise settles. \<^verbatim>\<open>Boolean(key)\<close> is false for \<^verbatim>\<open>null\<close> only: every
  \<^verbatim>\<open>Uint8Array\<close> is an object and so truthy.
\<close>

definition checkEncryption ::
  "CryptoApi option \<Rightarrow> RecoveryPanelState \<Rightarrow> RecoveryPanelState \<times> effect list \<times> (jserror + unit)" where
  "checkEncryption crypto state =
     (case crypto of
        None \<Rightarrow> (state, [], Inr ())
      | Some c \<Rightarrow>
          (case getSessionBackupPrivateKey c of
             Inl e \<Rightarrow> (state, [GetSessionBackupPrivateKey], Inl e)
           | Inr key \<Rightarrow>
               (let hasBackup = (key \<noteq> None) in
                if \<not> hasBackup then (missing_backup, [GetSessionBackupPrivateKey], Inr ())
                else
                  (case getCrossSigningStatus c of
                     Inl e \<Rightarrow> (state, [GetSessionBackupPrivateKey, GetCrossSigningStatus], Inl e)
                   | Inr status \<Rightarrow>
                       (let cachedSecrets = privateKeysCachedLocally status;
                            secretsOk = (masterKey cachedSecrets \<and> selfSigningKey cachedSecrets
                                         \<and> userSigningKey cachedSecrets)
                        in if \<not> secretsOk
                           then (secrets_not_cached,
                                 [GetSessionBackupPrivateKey, GetCrossSigningStatus], Inr ())
                           else (good,
                                 [GetSessionBackupPrivateKey, GetCrossSigningStatus], Inr ()))))))"

text \<open>
  The panel starts in \<open>loading\<close> and runs the check when it is mounted; the check runs
  again whenever it is re-invoked (after the secret storage was accessed, or when the
  client changes). \<open>checks\<close> runs one check per element of the list, each against the crypto
  collaborator as it is at that moment, and collects the probes.
\<close>

definition RecoveryPanel_initial :: RecoveryPanelState where
  "RecoveryPanel_initial = loading"

fun checks :: "CryptoApi option list \<Rightarrow> RecoveryPanelState \<Rightarrow> RecoveryPanelState \<times> effect list" where
  "checks [] state = (state, [])"
| "checks (crypto # rest) state =
     (case checkEncryption crypto state of
        (state', probes, _) \<Rightarrow>
          (case checks rest state' of (state'', probes') \<Rightarrow> (state'', probes @ probes')))"

section \<open>ChangeRecoveryKey\<close>

text \<open>The type \<^verbatim>\<open>State\<close> of ChangeRecoveryKey.tsx.\<close>

datatype ChangeRecoveryKeyState = inform_user | save_key_setup_flow | save_key_change_flow | confirm

text \<open>
  The component: the prop \<^verbatim>\<open>isSetupFlow\<close> and the values of its two hooks. The props
  \<^verbatim>\<open>onFinish\<close> and \<^verbatim>\<open>onCancelClick\<close> are callbacks of the parent; calling one is the
  effect \<open>OnFinish\<close> or \<open>OnCancelClick\<close>.
\<close>

record ChangeRecoveryKey =
  isSetupFlow :: bool
  state :: ChangeRecoveryKeyState
  recoveryKey :: "GeneratedSecretStorageKey option"

text \<open>The function handed to \<^verbatim>\<open>useAsyncMemo\<close>: the call it makes and what its promise settles to.\<close>

definition createRecoveryKey ::
  "CryptoApi option \<Rightarrow> effect list \<times> (jserror + GeneratedSecretStorageKey option)" where
  "createRecoveryKey crypto =
     (case crypto of
        None \<Rightarrow> ([], Inr None)
      | Some c \<Rightarrow>
          ([CreateRecoveryKeyFromPassphrase],
           (case createRecoveryKeyFromPassphrase c of Inl e \<Rightarrow> Inl e | Inr key \<Rightarrow> Inr (Some key))))"

text \<open>
  Modelled from the spec: the hook \<^verbatim>\<open>useAsyncMemo\<close> (hooks/useAsyncMemo is not among the
  sources at hand). The spec: "A fresh recovery key is generated once per flow activation
  via the crypto collaborator and reused across all states until commit", and the key is
  "stable across re-renders within one flow activation (not regenerated on state
  transition)". With the empty dependency list the hook therefore runs its function once,
  when the component is activated; its value is \<^verbatim>\<open>undefined\<close> (\<open>None\<close>) unless the promise
  resolved, and the resolved value from then on.
\<close>

definition useAsyncMemo :: "effect list \<times> (jserror + 'a option) \<Rightarrow> effect list \<times> 'a option" where
  "useAsyncMemo fn = (fst fn, (case snd fn of Inl e \<Rightarrow> None | Inr v \<Rightarrow> v))"

text \<open>
  One activation of the wizard: the initial value of \<^verbatim>\<open>useState\<close> and the memoised key.
  While the key's promise is pending the component renders \<^verbatim>\<open>null\<close> and no handler can
  run, so the model starts where the promise has settled.
\<close>

definition activate :: "CryptoApi option \<Rightarrow> bool \<Rightarrow> ChangeRecoveryKey \<times> effect list" where
  "activate crypto isSetup =
     (case useAsyncMemo (createRecoveryKey crypto) of
        (effs, key) \<Rightarrow>
          (\<lparr>isSetupFlow = isSetup,
            state = (if isSetup then inform_user else save_key_change_flow),
            recoveryKey = key\<rparr>, effs))"

text \<open>
  What the component renders: nothing when \<^verbatim>\<open>!recoveryKey?.encodedPrivateKey\<close> (no key, no
  encoded key, or the empty string), else the panel of the current state, which is given
  the encoded key.
\<close>

datatype content = InformationPanel | KeyPanel jsstring | KeyForm jsstring

definition render :: "ChangeRecoveryKey \<Rightarrow> content option" where
  "render w =
     (case recoveryKey w of
        None \<Rightarrow> None
      | Some key \<Rightarrow>
          (case encodedPrivateKey key of
             None \<Rightarrow> None
           | Some encoded \<Rightarrow>
               if encoded = [] then None
               else Some (case state w of
                            inform_user \<Rightarrow> InformationPanel
                          | save_key_setup_flow \<Rightarrow> KeyPanel encoded
                          | save_key_change_flow \<Rightarrow> KeyPanel encoded
                          | confirm \<Rightarrow> KeyForm encoded)))"

text \<open>
  Modelled from the spec: \<^verbatim>\<open>withSecretStorageKeyCache\<close> of SecurityManager, which is not
  among the sources at hand. The spec: "\<^verbatim>\<open>withSecretStorageKeyCache(fn)\<close> (scoped
  key-cache enable/disable around \<^verbatim>\<open>fn\<close>)". The argument is the run of \<^verbatim>\<open>fn\<close>: its effects
  and what its promise settles to, which is also how the scoped call settles.
\<close>

definition withSecretStorageKeyCache ::
  "effect list \<times> (jserror + 'a) \<Rightarrow> effect list \<times> (jserror + 'a)" where
  "withSecretStorageKeyCache func = ([EnableKeyCache] @ fst func @ [DisableKeyCache], snd func)"

text \<open>
  The \<^verbatim>\<open>onSubmit\<close> handler given to the key form in the \<open>confirm\<close> state. It calls
  \<^verbatim>\<open>getCrypto()\<close> afresh. \<open>key\<close> is the memoised key, which the handler's closure holds.
  The handler never calls \<^verbatim>\<open>setState\<close>.
\<close>

definition onSubmit ::
  "CryptoApi option \<Rightarrow> GeneratedSecretStorageKey \<Rightarrow> ChangeRecoveryKey \<Rightarrow> ChangeRecoveryKey \<times> effect list" where
  "onSubmit crypto key w =
     (case crypto of
        None \<Rightarrow> (w, [OnFinish])
      | Some c \<Rightarrow>
          (let opts = \<lparr>setupNewKeyBackup = isSetupFlow w,
                       setupNewSecretStorage = True,
                       createSecretStorageKey = key\<rparr>
           in case withSecretStorageKeyCache
                     ([BootstrapSecretStorage opts], bootstrapSecretStorage c opts) of
                (effs, Inr _) \<Rightarrow> (w, effs @ [OnFinish])
              | (effs, Inl e) \<Rightarrow>
                  (w, effs @ [LoggerError ''Failed to bootstrap secret storage'' e])))"

text \<open>
  What the user can do, and the handler the rendered content attaches to it: the
  breadcrumb (back, page) and every cancel button call \<^verbatim>\<open>onCancelClick\<close>; the information
  panel's continue button sets \<open>save_key_setup_flow\<close>; the key panel's continue button sets
  \<open>confirm\<close> and its copy button copies the key; submitting the key form runs \<open>onSubmit\<close>.
  An action that the rendered content has no control for does nothing.
\<close>

datatype action = ContinueClick | ConfirmClick | CopyClick | CancelClick | BackClick | PageClick | SubmitForm

definition dispatch ::
  "CryptoApi option \<Rightarrow> action \<Rightarrow> ChangeRecoveryKey \<Rightarrow> ChangeRecoveryKey \<times> effect list" where
  "dispatch crypto a w =
     (case recoveryKey w of
        None \<Rightarrow> (w, [])
      | Some key \<Rightarrow>
          (case render w of
             None \<Rightarrow> (w, [])
           | Some c \<Rightarrow>
               if a = CancelClick \<or> a = BackClick \<or> a = PageClick then (w, [OnCancelClick])
               else
                 (case c of
                    InformationPanel \<Rightarrow>
                      if a = ContinueClick then (w\<lparr>state := save_key_setup_flow\<rparr>, []) else (w, [])
                  | KeyPanel encoded \<Rightarrow>
                      if a = ConfirmClick then (w\<lparr>state := confirm\<rparr>, [])
                      else if a = CopyClick then (w, [CopyPlaintext encoded])
                      else (w, [])
                  | KeyForm encoded \<Rightarrow>
                      if a = SubmitForm then onSubmit crypto key w else (w, []))))"

text \<open>
  A run of the wizard after its activation: the user's actions in order, each with the
  crypto collaborator as \<^verbatim>\<open>getCrypto()\<close> returns it at that moment.
\<close>

fun run ::
  "(CryptoApi option \<times> action) list \<Rightarrow> ChangeRecoveryKey \<Rightarrow> ChangeRecoveryKey \<times> effect list" where
  "run [] w = (w, [])"
| "run ((crypto, a) # rest) w =
     (case dispatch crypto a w of
        (w', effs) \<Rightarrow> (case run rest w' of (w'', effs') \<Rightarrow> (w'', effs @ effs')))"

text \<open>
  The key that the rendered content shows (key panel) or compares the input with (key
  form), and the keys that the bootstrap calls among a list of effects commit.
\<close>

fun contentKey :: "content \<Rightarrow> jsstring option" where
  "contentKey InformationPanel = None"
| "contentKey (KeyPanel encoded) = Some encoded"
| "contentKey (KeyForm encoded) = Some encoded"

fun committedKeys :: "effect list \<Rightarrow> GeneratedSecretStorageKey list" where
  "committedKeys [] = []"
| "committedKeys (BootstrapSecretStorage opts # rest) = createSecretStorageKey opts # committedKeys rest"
| "committedKeys (_ # rest) = committedKeys rest"

subsection \<open>KeyForm\<close>

text \<open>
  The form's only state is \<^verbatim>\<open>isKeyValid\<close>, a boolean that is \<^verbatim>\<open>undefined\<close> until the first
  change event. Each change event reads the text of the field \<^verbatim>\<open>recoveryKey\<close> and stores
  its comparison with the prop \<^verbatim>\<open>recoveryKey\<close> (here \<open>key\<close>). The finish button is disabled when \<^verbatim>\<open>!isKeyValid\<close>.
\<close>

definition KeyForm_initial :: "bool option" where
  "KeyForm_initial = None"

definition KeyForm_onChange :: "jsstring \<Rightarrow> jsstring \<Rightarrow> bool option \<Rightarrow> bool option" where
  "KeyForm_onChange key filledKey isKeyValid = Some (trim filledKey = key)"

definition isKeyInvalidAndFilled :: "bool option \<Rightarrow> bool" where
  "isKeyInvalidAndFilled isKeyValid = (isKeyValid = Some False)"

definition disabled :: "bool option \<Rightarrow> bool" where
  "disabled isKeyValid = (\<not> (case isKeyValid of None \<Rightarrow> False | Some b \<Rightarrow> b))"

text \<open>
  The text field starts empty and holds what the user typed last; \<open>typed\<close> is the form
  after the change events for the given texts, in order.
\<close>

definition fieldText :: "jsstring list \<Rightarrow> jsstring" where
  "fieldText texts = (if texts = [] then [] else last texts)"

definition typed :: "jsstring \<Rightarrow> jsstring list \<Rightarrow> bool option" where
  "typed key texts =
     foldl (\<lambda>isKeyValid filledKey. KeyForm_onChange key filledKey isKeyValid)
       KeyForm_initial texts"

section \<open>VoiceRecordComposerTile\<close>

text \<open>
  A JavaScript number. The tile stores numbers and hands them on; the arithmetic of the
  message payload is written over the reals, without the rounding of IEEE doubles.
\<close>

type_synonym number = real

definition Math_round :: "number \<Rightarrow> int" where
  "Math_round x = \<lfloor>x + 1 / 2\<rfloor>"

text \<open>
  The recording phases the tile tells apart are \<^verbatim>\<open>Started\<close>, \<^verbatim>\<open>EndingSoon\<close> and
  \<^verbatim>\<open>Uploading\<close>; any other member of the enumeration of voice/VoiceRecording is
  \<open>OtherState\<close> with its tag.
\<close>

datatype RecordingState = Started | EndingSoon | Uploading | OtherState string

text \<open>
  A recorder, by what its methods settle to and the values of the properties the tile
  reads; \<open>playbackWaveform\<close> is \<^verbatim>\<open>getPlayback().waveform\<close>.
\<close>

record VoiceRecording =
  start :: "jserror + unit"
  stop :: "jserror + unit"
  upload :: "jserror + jsstring"
  durationSeconds :: number
  contentType :: jsstring
  contentLength :: nat
  playbackWaveform :: "number list"
  isRecording :: bool

record IRecordingUpdate =
  waveform :: "number list"
  timeSeconds :: number

record IState =
  recorder :: "VoiceRecording option"
  recordingPhase :: "RecordingState option"
  relHeights :: "number list"
  seconds :: number

text \<open>The content of the message event that \<^verbatim>\<open>send\<close> builds.\<close>

record VoiceMessageContent =
  body :: string
  url :: jsstring
  info_duration :: int
  info_mimetype :: jsstring
  info_size :: nat
  file_url :: jsstring
  file_name :: string
  file_mimetype :: jsstring
  file_size :: nat
  audio_duration :: int
  audio_waveform :: "int list"

text \<open>
  The device list of \<^verbatim>\<open>CallMediaHandler.getDevices\<close>. The tile reads it with optional
  chaining, so the list as a whole and the entry \<^verbatim>\<open>audioinput\<close> may be \<^verbatim>\<open>undefined\<close>.
\<close>

type_synonym MediaDeviceInfo = jsstring

record IMediaDevices =
  audiooutput :: "MediaDeviceInfo list option"
  audioinput :: "MediaDeviceInfo list option"
  videoinput :: "MediaDeviceInfo list option"

text \<open>
  The collaborators of the tile, by what their calls settle to: the device enumeration
  and the two operations of \<^verbatim>\<open>VoiceRecordingStore.instance\<close>.
\<close>

record Services =
  getDevices :: "jserror + IMediaDevices option"
  store_startRecording :: "jserror + VoiceRecording"
  store_disposeRecording :: "jserror + unit"

text \<open>
  The helpers of utils/arrays and utils/numbers and the constant of voice/VoiceRecording
  are not among the sources at hand; the tile is modelled for any such helpers.
\<close>

record Utils =
  RECORDING_PLAYBACK_SAMPLES :: nat
  arraySeed :: "number \<Rightarrow> nat \<Rightarrow> number list"
  arrayFastResample :: "number list \<Rightarrow> nat \<Rightarrow> number list"
  percentageOf :: "number \<Rightarrow> number \<Rightarrow> number \<Rightarrow> number"

datatype tile_effect =
    GetDevices
  | CreateTrackedDialog string
  | ConsoleError string jserror
  | StartRecording
  | RecorderStart
  | RecorderOn
  | LiveDataOnUpdate
  | RecorderStop
  | RecorderUpload
  | SendMessage jsstring VoiceMessageContent
  | DisposeRecording
  | RequestAnimationFrame
  | SetState IState

text \<open>The only function the tile hands to \<^verbatim>\<open>requestAnimationFrame\<close> is the flush of \<^verbatim>\<open>onRecordingUpdate\<close>.\<close>

datatype callback = Flush

text \<open>
  The tile: the room of its props, its React state (\<open>istate\<close>), its three private fields
  (\<^verbatim>\<open>waveform\<close> and \<^verbatim>\<open>seconds\<close> are \<open>this_waveform\<close> and \<open>this_seconds\<close> here), the callbacks
  it has waiting for the browser's next animation frame, and the effects it has had so far.
\<close>

record VoiceRecordComposerTile =
  roomId :: jsstring
  istate :: IState
  this_waveform :: "number list"
  this_seconds :: number
  scheduledAnimationFrame :: bool
  animationFrameCallbacks :: "callback list"
  effects :: "tile_effect list"

definition emit :: "tile_effect \<Rightarrow> VoiceRecordComposerTile \<Rightarrow> VoiceRecordComposerTile" where
  "emit e t = t\<lparr>effects := effects t @ [e]\<rparr>"

definition constructor :: "Utils \<Rightarrow> jsstring \<Rightarrow> VoiceRecordComposerTile" where
  "constructor u room =
     \<lparr>roomId = room,
      istate = \<lparr>recorder = None, recordingPhase = None,
                relHeights = arraySeed u 0 (RECORDING_PLAYBACK_SAMPLES u), seconds = 0\<rparr>,
      this_waveform = [], this_seconds = 0, scheduledAnimationFrame = False,
      animationFrameCallbacks = [], effects = []\<rparr>"

text \<open>
  \<^verbatim>\<open>componentDidUpdate\<close> subscribes \<^verbatim>\<open>onRecordingUpdate\<close> to the live data of a recorder that
  has just been set. \<^verbatim>\<open>setState\<close> applies the update and is followed by it.
\<close>

definition componentDidUpdate :: "IState \<Rightarrow> VoiceRecordComposerTile \<Rightarrow> VoiceRecordComposerTile" where
  "componentDidUpdate prevState t =
     (if recorder prevState = None \<and> recorder (istate t) \<noteq> None then emit LiveDataOnUpdate t else t)"

definition setState :: "(IState \<Rightarrow> IState) \<Rightarrow> VoiceRecordComposerTile \<Rightarrow> VoiceRecordComposerTile" where
  "setState f t =
     componentDidUpdate (istate t) (emit (SetState (f (istate t))) (t\<lparr>istate := f (istate t)\<rparr>))"

subsection \<open>Live updates\<close>

text \<open>The function that \<^verbatim>\<open>onRecordingUpdate\<close> hands to \<^verbatim>\<open>requestAnimationFrame\<close>.\<close>

definition flush :: "Utils \<Rightarrow> VoiceRecordComposerTile \<Rightarrow> VoiceRecordComposerTile" where
  "flush u t =
     (let bars = arrayFastResample u (this_waveform t) (RECORDING_PLAYBACK_SAMPLES u);
          t1 = setState (\<lambda>s. s\<lparr>relHeights := map (\<lambda>b. percentageOf u b 0 (1 / 2)) bars,
                                 seconds := this_seconds t\<rparr>) t
      in t1\<lparr>scheduledAnimationFrame := False\<rparr>)"

definition onRecordingUpdate :: "IRecordingUpdate \<Rightarrow> VoiceRecordComposerTile \<Rightarrow> VoiceRecordComposerTile" where
  "onRecordingUpdate update t =
     (let t1 = t\<lparr>this_waveform := waveform update, this_seconds := timeSeconds update\<rparr>
      in if scheduledAnimationFrame t1 then t1
         else (emit RequestAnimationFrame (t1\<lparr>scheduledAnimationFrame := True\<rparr>))
                \<lparr>animationFrameCallbacks := animationFrameCallbacks t1 @ [Flush]\<rparr>)"

text \<open>
  One display refresh: the browser takes the callbacks that are waiting and runs each of
  them once, in the order of their requests.
\<close>

definition animationFrame :: "Utils \<Rightarrow> VoiceRecordComposerTile \<Rightarrow> VoiceRecordComposerTile" where
  "animationFrame u t =
     foldl (\<lambda>t' cb. case cb of Flush \<Rightarrow> flush u t')
       (t\<lparr>animationFrameCallbacks := []\<rparr>) (animationFrameCallbacks t)"

definition updates :: "IRecordingUpdate list \<Rightarrow> VoiceRecordComposerTile \<Rightarrow> VoiceRecordComposerTile" where
  "updates us t = foldl (\<lambda>t' update. onRecordingUpdate update t') t us"

text \<open>The view-state updates among a list of effects.\<close>

fun isSetState :: "tile_effect \<Rightarrow> bool" where
  "isSetState (SetState s) = True"
| "isSetState _ = False"

subsection \<open>Sending and disposing\<close>

definition voiceMessage :: "VoiceRecording \<Rightarrow> jsstring \<Rightarrow> VoiceMessageContent" where
  "voiceMessage r mxc =
     \<lparr>body = ''Voice message'',
      url = mxc,
      info_duration = Math_round (durationSeconds r * 1000),
      info_mimetype = contentType r,
      info_size = contentLength r,
      file_url = mxc,
      file_name = ''Voice message.ogg'',
      file_mimetype = contentType r,
      file_size = contentLength r,
      audio_duration = Math_round (durationSeconds r * 1000),
      audio_waveform = map (\<lambda>v. Math_round (v * 1024)) (playbackWaveform r)\<rparr>"

text \<open>
  The private \<^verbatim>\<open>disposeRecording\<close>: it awaits the store's disposal and then resets the
  state. Every asynchronous method returns the tile and how its promise settles.
\<close>

definition disposeRecording ::
  "Services \<Rightarrow> VoiceRecordComposerTile \<Rightarrow> VoiceRecordComposerTile \<times> (jserror + unit)" where
  "disposeRecording env t =
     (let t1 = emit DisposeRecording t
      in case store_disposeRecording env of
           Inl e \<Rightarrow> (t1, Inl e)
         | Inr _ \<Rightarrow> (setState (\<lambda>s. s\<lparr>recorder := None, recordingPhase := None\<rparr>) t1, Inr ()))"

text \<open>
  \<^verbatim>\<open>send\<close>. The promise that \<^verbatim>\<open>sendMessage\<close> returns is not awaited, so only the call is
  recorded.
\<close>

definition send ::
  "Services \<Rightarrow> VoiceRecordComposerTile \<Rightarrow> VoiceRecordComposerTile \<times> (jserror + unit)" where
  "send env t =
     (case recorder (istate t) of
        None \<Rightarrow> (t, Inl (Error ''No recording started - cannot send anything''))
      | Some r \<Rightarrow>
          (let t1 = emit RecorderStop t
           in case stop r of
                Inl e \<Rightarrow> (t1, Inl e)
              | Inr _ \<Rightarrow>
                  (let t2 = emit RecorderUpload t1
                   in case upload r of
                        Inl e \<Rightarrow> (t2, Inl e)
                      | Inr mxc \<Rightarrow>
                          disposeRecording env
                            (emit (SendMessage (roomId t) (voiceMessage r mxc)) t2))))"

definition onCancel ::
  "Services \<Rightarrow> VoiceRecordComposerTile \<Rightarrow> VoiceRecordComposerTile \<times> (jserror + unit)" where
  "onCancel env t = disposeRecording env t"

definition componentWillUnmount ::
  "Services \<Rightarrow> VoiceRecordComposerTile \<Rightarrow> VoiceRecordComposerTile \<times> (jserror + unit)" where
  "componentWillUnmount env t = (emit DisposeRecording t, store_disposeRecording env)"

subsection \<open>Starting and stopping\<close>

definition accessError :: "VoiceRecordComposerTile \<Rightarrow> VoiceRecordComposerTile" where
  "accessError t = emit (CreateTrackedDialog ''Microphone Access Error'') t"

text \<open>\<^verbatim>\<open>!devices?.['audioinput']?.length\<close>\<close>

definition noAudioInput :: "IMediaDevices option \<Rightarrow> bool" where
  "noAudioInput devices =
     (case devices of
        None \<Rightarrow> True
      | Some d \<Rightarrow> (case audioinput d of None \<Rightarrow> True | Some inputs \<Rightarrow> length inputs = 0))"

text \<open>The listener that the tile registers for the recorder's \<^verbatim>\<open>UPDATE_EVENT\<close>.\<close>

definition onUpdateEvent :: "RecordingState \<Rightarrow> VoiceRecordComposerTile \<Rightarrow> VoiceRecordComposerTile" where
  "onUpdateEvent ev t =
     (if ev = EndingSoon then t else setState (\<lambda>s. s\<lparr>recordingPhase := Some ev\<rparr>) t)"

text \<open>
  The \<^verbatim>\<open>catch\<close> of the second \<^verbatim>\<open>try\<close> of \<^verbatim>\<open>onRecordStartEndClick\<close>; the store's disposal is
  requested and not awaited.
\<close>

definition startFailed :: "jserror \<Rightarrow> VoiceRecordComposerTile \<Rightarrow> VoiceRecordComposerTile" where
  "startFailed e t =
     emit DisposeRecording (accessError (emit (ConsoleError ''Error starting recording: '' e) t))"

definition onRecordStartEndClick ::
  "Services \<Rightarrow> VoiceRecordComposerTile \<Rightarrow> VoiceRecordComposerTile \<times> (jserror + unit)" where
  "onRecordStartEndClick env t =
     (case recorder (istate t) of
        Some r \<Rightarrow>
          (case stop r of
             Inl e \<Rightarrow> (emit RecorderStop t, Inl e)
           | Inr _ \<Rightarrow> (emit RecorderStop t, Inr ()))
      | None \<Rightarrow>
          (let t1 = emit GetDevices t
           in case getDevices env of
                Inl e \<Rightarrow> (accessError (emit (ConsoleError ''Error getting devices: '' e) t1), Inr ())
              | Inr devices \<Rightarrow>
                  if noAudioInput devices
                  then (emit (CreateTrackedDialog ''No Microphone Error'') t1, Inr ())
                  else
                    (let t2 = emit StartRecording t1
                     in case store_startRecording env of
                          Inl e \<Rightarrow> (startFailed e t2, Inr ())
                        | Inr r \<Rightarrow>
                            (let t3 = emit RecorderStart t2
                             in case start r of
                                  Inl e \<Rightarrow> (startFailed e t3, Inr ())
                                | Inr _ \<Rightarrow>
                                    (setState (\<lambda>s. s\<lparr>recorder := Some r,
                                                       recordingPhase := Some Started\<rparr>)
                                       (emit RecorderOn t3), Inr ())))))"

subsection \<open>The life of a tile\<close>

text \<open>
  What can reach a tile after its construction: an update of the recorder's live data, a
  display refresh, a click on the record button, a send by the composer, a click on the
  delete button, or a phase event of the recorder. The handlers that call collaborators
  come with the collaborators as they answer at that moment.
\<close>

datatype tick =
    Update IRecordingUpdate
  | Frame
  | RecordStartEndClick Services
  | Send Services
  | Cancel Services
  | UpdateEvent RecordingState

fun ticks :: "Utils \<Rightarrow> tick list \<Rightarrow> VoiceRecordComposerTile \<Rightarrow> VoiceRecordComposerTile" where
  "ticks u [] t = t"
| "ticks u (Update update # rest) t = ticks u rest (onRecordingUpdate update t)"
| "ticks u (Frame # rest) t = ticks u rest (animationFrame u t)"
| "ticks u (RecordStartEndClick env # rest) t = ticks u rest (fst (onRecordStartEndClick env t))"
| "ticks u (Send env # rest) t = ticks u rest (fst (send env t))"
| "ticks u (Cancel env # rest) t = ticks u rest (fst (onCancel env t))"
| "ticks u (UpdateEvent ev # rest) t = ticks u rest (onUpdateEvent ev t)"

text \<open>The flag \<^verbatim>\<open>scheduledAnimationFrame\<close> is set exactly when one flush is waiting.\<close>

definition pending :: "VoiceRecordComposerTile \<Rightarrow> bool" where
  "pending t = (animationFrameCallbacks t = (if scheduledAnimationFrame t then [Flush] else []))"

subsection \<open>Reading the effects\<close>

text \<open>
  The effects a handler added, from the tile before and after it, and the operations on
  the collaborators among them (everything but the view-state updates).
\<close>

definition since :: "VoiceRecordComposerTile \<Rightarrow> VoiceRecordComposerTile \<Rightarrow> tile_effect list" where
  "since t t' = drop (length (effects t)) (effects t')"

definition operations :: "tile_effect list \<Rightarrow> tile_effect list" where
  "operations effs = filter (\<lambda>e. \<not> isSetState e) effs"

section \<open>Properties of RecoveryPanel\<close>

text \<open>
  C1. For every combination of the two probe results the check resolves to exactly the
  specified state: a \<^verbatim>\<open>null\<close> backup key gives \<open>missing_backup\<close>, and the cross-signing
  status is not asked for; with a backup key, a cross-signing key that is not cached gives
  \<open>secrets_not_cached\<close>; with a backup key and all three keys cached the state is \<open>good\<close>.
  The list of effects shows which probes were made.
\<close>

theorem checkEncryption_resolves:
  "(getSessionBackupPrivateKey c = Inr None \<longrightarrow>
      checkEncryption (Some c) s = (missing_backup, [GetSessionBackupPrivateKey], Inr ()))
   \<and> (getSessionBackupPrivateKey c = Inr (Some k) \<and> getCrossSigningStatus c = Inr st
        \<and> \<not> (masterKey (privateKeysCachedLocally st)
              \<and> selfSigningKey (privateKeysCachedLocally st)
              \<and> userSigningKey (privateKeysCachedLocally st)) \<longrightarrow>
      checkEncryption (Some c) s =
        (secrets_not_cached, [GetSessionBackupPrivateKey, GetCrossSigningStatus], Inr ()))
   \<and> (getSessionBackupPrivateKey c = Inr (Some k) \<and> getCrossSigningStatus c = Inr st
        \<and> masterKey (privateKeysCachedLocally st)
        \<and> selfSigningKey (privateKeysCachedLocally st)
        \<and> userSigningKey (privateKeysCachedLocally st) \<longrightarrow>
      checkEncryption (Some c) s =
        (good, [GetSessionBackupPrivateKey, GetCrossSigningStatus], Inr ()))"
  by (simp add: checkEncryption_def)

text \<open>
  The three cases at work, from \<open>loading\<close>: no backup key (the cross-signing status would
  have been rejected, and is not asked for); a backup key with the self-signing key not
  cached; a backup key with all three keys cached.
\<close>

theorem checkEncryption_resolves_witness:
  "checkEncryption
     (Some \<lparr>getSessionBackupPrivateKey = Inr None,
            getCrossSigningStatus = Inl (Error ''not asked''),
            createRecoveryKeyFromPassphrase = Inl (Error ''not asked''),
            bootstrapSecretStorage = (\<lambda>opts. Inr ())\<rparr>) loading
     = (missing_backup, [GetSessionBackupPrivateKey], Inr ())
   \<and> checkEncryption
     (Some \<lparr>getSessionBackupPrivateKey = Inr (Some [1, 2, 3]),
            getCrossSigningStatus =
              Inr \<lparr>publicKeysOnDevice = True, privateKeysInSecretStorage = True,
                   privateKeysCachedLocally =
                     \<lparr>masterKey = True, selfSigningKey = False, userSigningKey = True\<rparr>\<rparr>,
            createRecoveryKeyFromPassphrase = Inl (Error ''not asked''),
            bootstrapSecretStorage = (\<lambda>opts. Inr ())\<rparr>) loading
     = (secrets_not_cached, [GetSessionBackupPrivateKey, GetCrossSigningStatus], Inr ())
   \<and> checkEncryption
     (Some \<lparr>getSessionBackupPrivateKey = Inr (Some [1, 2, 3]),
            getCrossSigningStatus =
              Inr \<lparr>publicKeysOnDevice = True, privateKeysInSecretStorage = True,
                   privateKeysCachedLocally =
                     \<lparr>masterKey = True, selfSigningKey = True, userSigningKey = True\<rparr>\<rparr>,
            createRecoveryKeyFromPassphrase = Inl (Error ''not asked''),
            bootstrapSecretStorage = (\<lambda>opts. Inr ())\<rparr>) loading
     = (good, [GetSessionBackupPrivateKey, GetCrossSigningStatus], Inr ())"
  using
    checkEncryption_resolves [of
      "\<lparr>getSessionBackupPrivateKey = Inr None,
        getCrossSigningStatus = Inl (Error ''not asked''),
        createRecoveryKeyFromPassphrase = Inl (Error ''not asked''),
        bootstrapSecretStorage = (\<lambda>opts. Inr ())\<rparr>" loading]
    checkEncryption_resolves [of
      "\<lparr>getSessionBackupPrivateKey = Inr (Some [1, 2, 3]),
        getCrossSigningStatus =
          Inr \<lparr>publicKeysOnDevice = True, privateKeysInSecretStorage = True,
               privateKeysCachedLocally =
                 \<lparr>masterKey = True, selfSigningKey = False, userSigningKey = True\<rparr>\<rparr>,
        createRecoveryKeyFromPassphrase = Inl (Error ''not asked''),
        bootstrapSecretStorage = (\<lambda>opts. Inr ())\<rparr>" loading "[1, 2, 3]"
      "\<lparr>publicKeysOnDevice = True, privateKeysInSecretStorage = True,
        privateKeysCachedLocally =
          \<lparr>masterKey = True, selfSigningKey = False, userSigningKey = True\<rparr>\<rparr>"]
    checkEncryption_resolves [of
      "\<lparr>getSessionBackupPrivateKey = Inr (Some [1, 2, 3]),
        getCrossSigningStatus =
          Inr \<lparr>publicKeysOnDevice = True, privateKeysInSecretStorage = True,
               privateKeysCachedLocally =
                 \<lparr>masterKey = True, selfSigningKey = True, userSigningKey = True\<rparr>\<rparr>,
        createRecoveryKeyFromPassphrase = Inl (Error ''not asked''),
        bootstrapSecretStorage = (\<lambda>opts. Inr ())\<rparr>" loading "[1, 2, 3]"
      "\<lparr>publicKeysOnDevice = True, privateKeysInSecretStorage = True,
        privateKeysCachedLocally =
          \<lparr>masterKey = True, selfSigningKey = True, userSigningKey = True\<rparr>\<rparr>"]
  by simp

lemma checkEncryption_None: "checkEncryption None s = (s, [], Inr ())"
  by (simp add: checkEncryption_def)

lemma checks_None: "checks (replicate n None) s = (s, [])"
  by (induction n) (simp_all add: checkEncryption_None)

text \<open>
  C5. When the crypto collaborator is unavailable the check makes no call and no state
  transition; a panel that starts in \<open>loading\<close> is still in \<open>loading\<close> after any number of
  such checks, without a single probe.
\<close>

theorem crypto_unavailable_stays_loading:
  "checkEncryption None s = (s, [], Inr ())
   \<and> checks (replicate n None) RecoveryPanel_initial = (loading, [])"
  by (simp add: checkEncryption_None checks_None RecoveryPanel_initial_def)

section \<open>Properties of ChangeRecoveryKey\<close>

subsection \<open>The initial state\<close>

lemma dispatch_not_inform_user:
  "state w \<noteq> inform_user \<Longrightarrow> state (fst (dispatch crypto a w)) \<noteq> inform_user"
  by (auto simp: dispatch_def onSubmit_def withSecretStorageKeyCache_def Let_def
      split: option.splits content.splits sum.splits)

lemma run_not_inform_user:
  "state w \<noteq> inform_user \<Longrightarrow> state (fst (run steps w)) \<noteq> inform_user"
proof (induction steps arbitrary: w)
  case Nil
  then show ?case by simp
next
  case (Cons step steps)
  obtain crypto a where step: "step = (crypto, a)" by (cases step)
  obtain w' effs where d: "dispatch crypto a w = (w', effs)" by (cases "dispatch crypto a w")
  from Cons.prems d have "state w' \<noteq> inform_user"
    using dispatch_not_inform_user [of w crypto a] by simp
  from Cons.IH [OF this] show ?case
    by (auto simp: step d split: prod.splits)
qed

text \<open>
  C3. An activation in the setup flow starts in \<open>inform_user\<close>, an activation in the
  change flow starts in \<open>save_key_change_flow\<close>; the change flow skips the introductory
  screen for good: no run of the wizard brings it to \<open>inform_user\<close>.
\<close>

theorem initial_state_by_flow:
  "state (fst (activate crypto True)) = inform_user
   \<and> state (fst (activate crypto False)) = save_key_change_flow
   \<and> state (fst (run steps (fst (activate crypto False)))) \<noteq> inform_user"
proof -
  have a: "state (fst (activate crypto True)) = inform_user"
    by (simp add: activate_def split: prod.splits)
  have b: "state (fst (activate crypto False)) = save_key_change_flow"
    by (simp add: activate_def split: prod.splits)
  from b have "state (fst (run steps (fst (activate crypto False)))) \<noteq> inform_user"
    by (intro run_not_inform_user) simp
  with a b show ?thesis by simp
qed

subsection \<open>The key form\<close>

lemma trim_empty: "trim [] = []"
  by (simp add: trim_def)

lemma typed_snoc: "typed key (texts @ [filledKey]) = Some (trim filledKey = key)"
  by (simp add: typed_def KeyForm_onChange_def)

lemma typed_last: "texts \<noteq> [] \<Longrightarrow> typed key texts = Some (trim (last texts) = key)"
  by (cases texts rule: rev_cases) (simp_all add: typed_snoc)

lemma render_KeyForm:
  "render w = Some (KeyForm key) \<Longrightarrow> key \<noteq> [] \<and> state w = confirm"
  by (auto simp: render_def split: option.splits if_splits ChangeRecoveryKeyState.splits)

text \<open>
  C2. In the confirm state, where the wizard renders the key form with the generated key,
  the finish button is disabled exactly when the trimmed input differs from the key, and so
  enabled exactly when they are equal: after a change event with any text, and after any
  sequence of change events, for the text the field then holds (the empty text before the
  first event: the rendered key is never empty).
\<close>

theorem confirm_submit_enabled_iff:
  assumes "render w = Some (KeyForm key)"
  shows "disabled (KeyForm_onChange key filledKey isKeyValid) = (trim filledKey \<noteq> key)
         \<and> disabled (typed key texts) = (trim (fieldText texts) \<noteq> key)"
proof -
  from assms have key: "key \<noteq> []"
    using render_KeyForm by blast
  have one: "disabled (KeyForm_onChange key filledKey isKeyValid) = (trim filledKey \<noteq> key)"
    by (simp add: disabled_def KeyForm_onChange_def)
  have all: "disabled (typed key texts) = (trim (fieldText texts) \<noteq> key)"
  proof (cases "texts = []")
    case True
    with key show ?thesis
      by (auto simp: typed_def KeyForm_initial_def disabled_def fieldText_def trim_empty)
  next
    case False
    then show ?thesis
      by (simp add: typed_last disabled_def fieldText_def)
  qed
  from one all show ?thesis by simp
qed

text \<open>
  With the key \<^verbatim>\<open>EsT\<close>: the text \<^verbatim>\<open>" EsT\n"\<close> enables the button, the empty field and
  the text \<^verbatim>\<open>Es\<close> leave it disabled, and typing \<^verbatim>\<open>Es\<close> and then \<^verbatim>\<open>"EsT "\<close> enables it.
\<close>

theorem confirm_submit_enabled_iff_witness:
  "render \<lparr>isSetupFlow = True, state = confirm,
           recoveryKey = Some \<lparr>privateKey = [1, 2], encodedPrivateKey = Some [0x45, 0x73, 0x54]\<rparr>\<rparr>
     = Some (KeyForm [0x45, 0x73, 0x54])
   \<and> trim [0x20, 0x45, 0x73, 0x54, 0x0A] = [0x45, 0x73, 0x54]
   \<and> \<not> disabled (KeyForm_onChange [0x45, 0x73, 0x54] [0x20, 0x45, 0x73, 0x54, 0x0A] None)
   \<and> disabled (typed [0x45, 0x73, 0x54] [])
   \<and> disabled (typed [0x45, 0x73, 0x54] [[0x45, 0x73]])
   \<and> \<not> disabled (typed [0x45, 0x73, 0x54] [[0x45, 0x73], [0x45, 0x73, 0x54, 0x20]])"
proof -
  have r: "render \<lparr>isSetupFlow = True, state = confirm,
           recoveryKey = Some \<lparr>privateKey = [1, 2], encodedPrivateKey = Some [0x45, 0x73, 0x54]\<rparr>\<rparr>
     = Some (KeyForm [0x45, 0x73, 0x54])"
    by (simp add: render_def)
  have t1: "trim [0x20, 0x45, 0x73, 0x54, 0x0A] = [0x45, 0x73, 0x54 :: 16 word]"
    by (simp add: trim_def isWhiteSpace_def)
  have t2: "trim [0x45, 0x73] = [0x45, 0x73 :: 16 word]"
    by (simp add: trim_def isWhiteSpace_def)
  have t3: "trim [0x45, 0x73, 0x54, 0x20] = [0x45, 0x73, 0x54 :: 16 word]"
    by (simp add: trim_def isWhiteSpace_def)
  show ?thesis
    using r t1 t2 t3
      confirm_submit_enabled_iff [OF r, of "[0x20, 0x45, 0x73, 0x54, 0x0A]" None "[]"]
      confirm_submit_enabled_iff [OF r, of "[]" None "[[0x45, 0x73]]"]
      confirm_submit_enabled_iff [OF r, of "[]" None "[[0x45, 0x73], [0x45, 0x73, 0x54, 0x20]]"]
    by (simp add: fieldText_def trim_empty)
qed

subsection \<open>Submitting the key form\<close>

text \<open>
  C4. A submit in the confirm state, with the crypto collaborator there, makes one scoped
  bootstrap call with the memoised key. When the call fails, the error is logged, the
  finish callback is not called, the wizard is as it was and still renders the key form,
  and no second call follows; when the call succeeds, the finish callback is called.
\<close>

theorem onSubmit_bootstrap_outcome:
  assumes "render w = Some (KeyForm encoded)"
    and "recoveryKey w = Some key"
    and "opts = \<lparr>setupNewKeyBackup = isSetupFlow w, setupNewSecretStorage = True,
                  createSecretStorageKey = key\<rparr>"
  shows "(bootstrapSecretStorage c opts = Inl e \<longrightarrow>
            dispatch (Some c) SubmitForm w =
              (w, [EnableKeyCache, BootstrapSecretStorage opts, DisableKeyCache,
                   LoggerError ''Failed to bootstrap secret storage'' e])
            \<and> OnFinish \<notin> set (snd (dispatch (Some c) SubmitForm w))
            \<and> render (fst (dispatch (Some c) SubmitForm w)) = Some (KeyForm encoded))
         \<and> (bootstrapSecretStorage c opts = Inr () \<longrightarrow>
            dispatch (Some c) SubmitForm w =
              (w, [EnableKeyCache, BootstrapSecretStorage opts, DisableKeyCache, OnFinish]))"
  using assms
  by (simp add: dispatch_def onSubmit_def withSecretStorageKeyCache_def Let_def)

text \<open>
  A setup flow in the confirm state with the key \<^verbatim>\<open>EsT\<close>, submitted once to a
  collaborator whose bootstrap fails and once to one whose bootstrap succeeds.
\<close>

theorem onSubmit_bootstrap_outcome_witness:
  "render \<lparr>isSetupFlow = True, state = confirm,
           recoveryKey = Some \<lparr>privateKey = [1, 2], encodedPrivateKey = Some [0x45, 0x73, 0x54]\<rparr>\<rparr>
     = Some (KeyForm [0x45, 0x73, 0x54])
   \<and> dispatch
       (Some \<lparr>getSessionBackupPrivateKey = Inr None,
              getCrossSigningStatus = Inl (Error ''not asked''),
              createRecoveryKeyFromPassphrase = Inl (Error ''not asked''),
              bootstrapSecretStorage = (\<lambda>opts. Inl (Error ''no network''))\<rparr>)
       SubmitForm
       \<lparr>isSetupFlow = True, state = confirm,
        recoveryKey = Some \<lparr>privateKey = [1, 2], encodedPrivateKey = Some [0x45, 0x73, 0x54]\<rparr>\<rparr>
     = (\<lparr>isSetupFlow = True, state = confirm,
         recoveryKey = Some \<lparr>privateKey = [1, 2], encodedPrivateKey = Some [0x45, 0x73, 0x54]\<rparr>\<rparr>,
        [EnableKeyCache,
         BootstrapSecretStorage
           \<lparr>setupNewKeyBackup = True, setupNewSecretStorage = True,
            createSecretStorageKey =
              \<lparr>privateKey = [1, 2], encodedPrivateKey = Some [0x45, 0x73, 0x54]\<rparr>\<rparr>,
         DisableKeyCache,
         LoggerError ''Failed to bootstrap secret storage'' (Error ''no network'')])
   \<and> dispatch
       (Some \<lparr>getSessionBackupPrivateKey = Inr None,
              getCrossSigningStatus = Inl (Error ''not asked''),
              createRecoveryKeyFromPassphrase = Inl (Error ''not asked''),
              bootstrapSecretStorage = (\<lambda>opts. Inr ())\<rparr>)
       SubmitForm
       \<lparr>isSetupFlow = True, state = confirm,
        recoveryKey = Some \<lparr>privateKey = [1, 2], encodedPrivateKey = Some [0x45, 0x73, 0x54]\<rparr>\<rparr>
     = (\<lparr>isSetupFlow = True, state = confirm,
         recoveryKey = Some \<lparr>privateKey = [1, 2], encodedPrivateKey = Some [0x45, 0x73, 0x54]\<rparr>\<rparr>,
        [EnableKeyCache,
         BootstrapSecretStorage
           \<lparr>setupNewKeyBackup = True, setupNewSecretStorage = True,
            createSecretStorageKey =
              \<lparr>privateKey = [1, 2], encodedPrivateKey = Some [0x45, 0x73, 0x54]\<rparr>\<rparr>,
         DisableKeyCache, OnFinish])"
proof -
  have r: "render \<lparr>isSetupFlow = True, state = confirm,
           recoveryKey = Some \<lparr>privateKey = [1, 2], encodedPrivateKey = Some [0x45, 0x73, 0x54]\<rparr>\<rparr>
     = Some (KeyForm [0x45, 0x73, 0x54])"
    by (simp add: render_def)
  have k: "recoveryKey \<lparr>isSetupFlow = True, state = confirm,
           recoveryKey = Some \<lparr>privateKey = [1, 2], encodedPrivateKey = Some [0x45, 0x73, 0x54]\<rparr>\<rparr>
     = Some \<lparr>privateKey = [1, 2], encodedPrivateKey = Some [0x45, 0x73, 0x54]\<rparr>"
    by simp
  have o: "\<lparr>setupNewKeyBackup = True, setupNewSecretStorage = True,
            createSecretStorageKey =
              \<lparr>privateKey = [1, 2], encodedPrivateKey = Some [0x45, 0x73, 0x54]\<rparr>\<rparr>
     = \<lparr>setupNewKeyBackup = isSetupFlow \<lparr>isSetupFlow = True, state = confirm,
           recoveryKey = Some \<lparr>privateKey = [1, 2], encodedPrivateKey = Some [0x45, 0x73, 0x54]\<rparr>\<rparr>,
        setupNewSecretStorage = True,
        createSecretStorageKey =
              \<lparr>privateKey = [1, 2], encodedPrivateKey = Some [0x45, 0x73, 0x54]\<rparr>\<rparr>"
    by simp
  show ?thesis
    using r
      onSubmit_bootstrap_outcome [OF r k o, of
        "\<lparr>getSessionBackupPrivateKey = Inr None,
          getCrossSigningStatus = Inl (Error ''not asked''),
          createRecoveryKeyFromPassphrase = Inl (Error ''not asked''),
          bootstrapSecretStorage = (\<lambda>opts. Inl (Error ''no network''))\<rparr>" "Error ''no network''"]
      onSubmit_bootstrap_outcome [OF r k o, of
        "\<lparr>getSessionBackupPrivateKey = Inr None,
          getCrossSigningStatus = Inl (Error ''not asked''),
          createRecoveryKeyFromPassphrase = Inl (Error ''not asked''),
          bootstrapSecretStorage = (\<lambda>opts. Inr ())\<rparr>" "Error ''no network''"]
    by simp
qed

text \<open>
  C10. A submit in the confirm state while the crypto collaborator is unavailable calls
  the finish callback at once: it is the handler's only effect, so no bootstrap call is
  made, and the wizard is as it was.
\<close>

theorem onSubmit_without_crypto:
  assumes "render w = Some (KeyForm encoded)"
  shows "dispatch None SubmitForm w = (w, [OnFinish])"
  using assms
  by (auto simp: dispatch_def onSubmit_def render_def split: option.splits)

text \<open>A change flow in the confirm state with the key \<^verbatim>\<open>EsT\<close>, submitted without a collaborator.\<close>

theorem onSubmit_without_crypto_witness:
  "render \<lparr>isSetupFlow = False, state = confirm,
           recoveryKey = Some \<lparr>privateKey = [1, 2], encodedPrivateKey = Some [0x45, 0x73, 0x54]\<rparr>\<rparr>
     = Some (KeyForm [0x45, 0x73, 0x54])
   \<and> dispatch None SubmitForm
       \<lparr>isSetupFlow = False, state = confirm,
        recoveryKey = Some \<lparr>privateKey = [1, 2], encodedPrivateKey = Some [0x45, 0x73, 0x54]\<rparr>\<rparr>
     = (\<lparr>isSetupFlow = False, state = confirm,
         recoveryKey = Some \<lparr>privateKey = [1, 2], encodedPrivateKey = Some [0x45, 0x73, 0x54]\<rparr>\<rparr>,
        [OnFinish])"
proof -
  have r: "render \<lparr>isSetupFlow = False, state = confirm,
           recoveryKey = Some \<lparr>privateKey = [1, 2], encodedPrivateKey = Some [0x45, 0x73, 0x54]\<rparr>\<rparr>
     = Some (KeyForm [0x45, 0x73, 0x54])"
    by (simp add: render_def)
  show ?thesis
    using r onSubmit_without_crypto [OF r] by simp
qed

subsection \<open>The generated key\<close>

lemma committedKeys_append:
  "committedKeys (xs @ ys) = committedKeys xs @ committedKeys ys"
  by (induction xs rule: committedKeys.induct) simp_all

lemma dispatch_keeps_key:
  "recoveryKey (fst (dispatch crypto a w)) = recoveryKey w"
  by (auto simp: dispatch_def onSubmit_def withSecretStorageKeyCache_def Let_def
      split: option.splits content.splits sum.splits)

lemma dispatch_no_generation:
  "CreateRecoveryKeyFromPassphrase \<notin> set (snd (dispatch crypto a w))"
  by (auto simp: dispatch_def onSubmit_def withSecretStorageKeyCache_def Let_def
      split: option.splits content.splits sum.splits)

lemma dispatch_commits_key:
  "set (committedKeys (snd (dispatch crypto a w))) \<subseteq> set_option (recoveryKey w)"
  by (auto simp: dispatch_def onSubmit_def withSecretStorageKeyCache_def Let_def
      split: option.splits content.splits sum.splits)

lemma run_keeps_key:
  "recoveryKey (fst (run steps w)) = recoveryKey w
   \<and> CreateRecoveryKeyFromPassphrase \<notin> set (snd (run steps w))
   \<and> set (committedKeys (snd (run steps w))) \<subseteq> set_option (recoveryKey w)"
proof (induction steps arbitrary: w)
  case Nil
  show ?case by simp
next
  case (Cons step steps)
  obtain crypto a where step: "step = (crypto, a)" by (cases step)
  obtain w' effs where d: "dispatch crypto a w = (w', effs)" by (cases "dispatch crypto a w")
  obtain w'' effs' where r: "run steps w' = (w'', effs')" by (cases "run steps w'")
  have k: "recoveryKey w' = recoveryKey w"
    using dispatch_keeps_key [of crypto a w] d by simp
  have n: "CreateRecoveryKeyFromPassphrase \<notin> set effs"
    using dispatch_no_generation [of crypto a w] d by simp
  have c: "set (committedKeys effs) \<subseteq> set_option (recoveryKey w)"
    using dispatch_commits_key [of crypto a w] d by simp
  from Cons.IH [of w'] r k
  have ih: "recoveryKey w'' = recoveryKey w"
    "CreateRecoveryKeyFromPassphrase \<notin> set effs'"
    "set (committedKeys effs') \<subseteq> set_option (recoveryKey w)"
    by simp_all
  from ih n c show ?case
    by (simp add: step d r committedKeys_append)
qed

lemma render_shows_key:
  "render w = Some c \<Longrightarrow> contentKey c = Some k \<Longrightarrow>
     \<exists>key. recoveryKey w = Some key \<and> encodedPrivateKey key = Some k"
  by (auto simp: render_def split: option.splits if_splits ChangeRecoveryKeyState.splits)

lemma activate_generation:
  "count_list (snd (activate crypto isSetup)) CreateRecoveryKeyFromPassphrase
     = (if crypto = None then 0 else 1)"
  by (simp add: activate_def useAsyncMemo_def createRecoveryKey_def split: option.splits prod.splits)

lemma count_list_append_absent:
  "x \<notin> set ys \<Longrightarrow> count_list (xs @ ys) x = count_list xs x"
  by (induction xs) (simp_all add: count_list_0_iff)

text \<open>
  C9. Within one activation the key is generated exactly once through the crypto
  collaborator, at the activation, and every run of the wizard leaves it unchanged: no
  handler generates a key, the memoised key after the run is the one of the activation,
  every bootstrap call of the run commits that key, and the key that the rendered content
  shows or compares with is its encoded form.
\<close>

theorem recoveryKey_generated_once:
  assumes "activate crypto isSetup = (w0, effs0)"
    and "run steps w0 = (w, effs)"
  shows "recoveryKey w = recoveryKey w0
         \<and> CreateRecoveryKeyFromPassphrase \<notin> set effs
         \<and> (crypto \<noteq> None \<longrightarrow> count_list (effs0 @ effs) CreateRecoveryKeyFromPassphrase = 1)
         \<and> set (committedKeys effs) \<subseteq> set_option (recoveryKey w0)
         \<and> (\<forall>c k. render w = Some c \<and> contentKey c = Some k \<longrightarrow>
               (\<exists>key. recoveryKey w0 = Some key \<and> encodedPrivateKey key = Some k))"
proof -
  from run_keeps_key [of steps w0] assms(2)
  have k: "recoveryKey w = recoveryKey w0"
    and n: "CreateRecoveryKeyFromPassphrase \<notin> set effs"
    and c: "set (committedKeys effs) \<subseteq> set_option (recoveryKey w0)"
    by simp_all
  from activate_generation [of crypto isSetup] assms(1)
  have "count_list effs0 CreateRecoveryKeyFromPassphrase = (if crypto = None then 0 else 1)"
    by simp
  with n have g: "crypto \<noteq> None \<longrightarrow> count_list (effs0 @ effs) CreateRecoveryKeyFromPassphrase = 1"
    by (simp add: count_list_append_absent)
  have r: "\<forall>c k. render w = Some c \<and> contentKey c = Some k \<longrightarrow>
               (\<exists>key. recoveryKey w0 = Some key \<and> encodedPrivateKey key = Some k)"
    using render_shows_key [of w] k by auto
  from k n g c r show ?thesis by blast
qed

text \<open>
  A setup flow whose collaborator generates the key \<^verbatim>\<open>EsT\<close>: the user continues twice and
  submits. The key is generated at the activation only, survives the three transitions,
  and is the key that the bootstrap call commits.
\<close>

theorem recoveryKey_generated_once_witness:
  "activate
     (Some \<lparr>getSessionBackupPrivateKey = Inr None,
            getCrossSigningStatus = Inl (Error ''not asked''),
            createRecoveryKeyFromPassphrase =
              Inr \<lparr>privateKey = [1, 2], encodedPrivateKey = Some [0x45, 0x73, 0x54]\<rparr>,
            bootstrapSecretStorage = (\<lambda>opts. Inr ())\<rparr>) True
     = (\<lparr>isSetupFlow = True, state = inform_user,
         recoveryKey = Some \<lparr>privateKey = [1, 2], encodedPrivateKey = Some [0x45, 0x73, 0x54]\<rparr>\<rparr>,
        [CreateRecoveryKeyFromPassphrase])
   \<and> run
       [(Some \<lparr>getSessionBackupPrivateKey = Inr None,
               getCrossSigningStatus = Inl (Error ''not asked''),
               createRecoveryKeyFromPassphrase = Inl (Error ''not asked again''),
               bootstrapSecretStorage = (\<lambda>opts. Inr ())\<rparr>, ContinueClick),
        (None, ConfirmClick),
        (Some \<lparr>getSessionBackupPrivateKey = Inr None,
               getCrossSigningStatus = Inl (Error ''not asked''),
               createRecoveryKeyFromPassphrase = Inl (Error ''not asked again''),
               bootstrapSecretStorage = (\<lambda>opts. Inr ())\<rparr>, SubmitForm)]
       \<lparr>isSetupFlow = True, state = inform_user,
        recoveryKey = Some \<lparr>privateKey = [1, 2], encodedPrivateKey = Some [0x45, 0x73, 0x54]\<rparr>\<rparr>
     = (\<lparr>isSetupFlow = True, state = confirm,
         recoveryKey = Some \<lparr>privateKey = [1, 2], encodedPrivateKey = Some [0x45, 0x73, 0x54]\<rparr>\<rparr>,
        [EnableKeyCache,
         BootstrapSecretStorage
           \<lparr>setupNewKeyBackup = True, setupNewSecretStorage = True,
            createSecretStorageKey =
              \<lparr>privateKey = [1, 2], encodedPrivateKey = Some [0x45, 0x73, 0x54]\<rparr>\<rparr>,
         DisableKeyCache, OnFinish])
   \<and> count_list
       ([CreateRecoveryKeyFromPassphrase] @
        [EnableKeyCache,
         BootstrapSecretStorage
           \<lparr>setupNewKeyBackup = True, setupNewSecretStorage = True,
            createSecretStorageKey =
              \<lparr>privateKey = [1, 2], encodedPrivateKey = Some [0x45, 0x73, 0x54]\<rparr>\<rparr>,
         DisableKeyCache, OnFinish]) CreateRecoveryKeyFromPassphrase = 1"
proof -
  have a: "activate
     (Some \<lparr>getSessionBackupPrivateKey = Inr None,
            getCrossSigningStatus = Inl (Error ''not asked''),
            createRecoveryKeyFromPassphrase =
              Inr \<lparr>privateKey = [1, 2], encodedPrivateKey = Some [0x45, 0x73, 0x54]\<rparr>,
            bootstrapSecretStorage = (\<lambda>opts. Inr ())\<rparr>) True
     = (\<lparr>isSetupFlow = True, state = inform_user,
         recoveryKey = Some \<lparr>privateKey = [1, 2], encodedPrivateKey = Some [0x45, 0x73, 0x54]\<rparr>\<rparr>,
        [CreateRecoveryKeyFromPassphrase])"
    by (simp add: activate_def useAsyncMemo_def createRecoveryKey_def)
  have b: "run
       [(Some \<lparr>getSessionBackupPrivateKey = Inr None,
               getCrossSigningStatus = Inl (Error ''not asked''),
               createRecoveryKeyFromPassphrase = Inl (Error ''not asked again''),
               bootstrapSecretStorage = (\<lambda>opts. Inr ())\<rparr>, ContinueClick),
        (None, ConfirmClick),
        (Some \<lparr>getSessionBackupPrivateKey = Inr None,
               getCrossSigningStatus = Inl (Error ''not asked''),
               createRecoveryKeyFromPassphrase = Inl (Error ''not asked again''),
               bootstrapSecretStorage = (\<lambda>opts. Inr ())\<rparr>, SubmitForm)]
       \<lparr>isSetupFlow = True, state = inform_user,
        recoveryKey = Some \<lparr>privateKey = [1, 2], encodedPrivateKey = Some [0x45, 0x73, 0x54]\<rparr>\<rparr>
     = (\<lparr>isSetupFlow = True, state = confirm,
         recoveryKey = Some \<lparr>privateKey = [1, 2], encodedPrivateKey = Some [0x45, 0x73, 0x54]\<rparr>\<rparr>,
        [EnableKeyCache,
         BootstrapSecretStorage
           \<lparr>setupNewKeyBackup = True, setupNewSecretStorage = True,
            createSecretStorageKey =
              \<lparr>privateKey = [1, 2], encodedPrivateKey = Some [0x45, 0x73, 0x54]\<rparr>\<rparr>,
         DisableKeyCache, OnFinish])"
    by (simp add: dispatch_def render_def onSubmit_def withSecretStorageKeyCache_def)
  show ?thesis
    using a b recoveryKey_generated_once [OF a b] by simp
qed

section \<open>Properties of VoiceRecordComposerTile\<close>

lemma emit_fields:
  "istate (emit e t) = istate t"
  "scheduledAnimationFrame (emit e t) = scheduledAnimationFrame t"
  "animationFrameCallbacks (emit e t) = animationFrameCallbacks t"
  "this_waveform (emit e t) = this_waveform t"
  "this_seconds (emit e t) = this_seconds t"
  "roomId (emit e t) = roomId t"
  "effects (emit e t) = effects t @ [e]"
  by (simp_all add: emit_def)

lemma setState_fields:
  "istate (setState f t) = f (istate t)"
  "scheduledAnimationFrame (setState f t) = scheduledAnimationFrame t"
  "animationFrameCallbacks (setState f t) = animationFrameCallbacks t"
  "this_waveform (setState f t) = this_waveform t"
  "this_seconds (setState f t) = this_seconds t"
  "roomId (setState f t) = roomId t"
  "effects (setState f t) =
     effects t @ SetState (f (istate t)) #
       (if recorder (istate t) = None \<and> recorder (f (istate t)) \<noteq> None
        then [LiveDataOnUpdate] else [])"
  by (simp_all add: setState_def componentDidUpdate_def emit_def)

subsection \<open>Starting a recording without a microphone\<close>

text \<open>
  C6. A click on the record button of a tile that has no recorder, when the device
  enumeration fails or yields no audio input device, shows an error dialog and stops
  there: the store is not asked for a recording, no recorder is started, and the tile's
  state, still without a recorder, is as it was.
\<close>

theorem no_microphone_aborts:
  assumes "recorder (istate t) = None"
    and "(\<exists>e. getDevices env = Inl e) \<or> (\<exists>d. getDevices env = Inr d \<and> noAudioInput d)"
  shows "let t' = fst (onRecordStartEndClick env t) in
           (\<exists>name. CreateTrackedDialog name \<in> set (since t t'))
           \<and> StartRecording \<notin> set (since t t')
           \<and> RecorderStart \<notin> set (since t t')
           \<and> istate t' = istate t
           \<and> recorder (istate t') = None
           \<and> snd (onRecordStartEndClick env t) = Inr ()"
  using assms
  by (auto simp: onRecordStartEndClick_def Let_def since_def accessError_def emit_fields)

text \<open>
  A fresh tile, clicked once when the enumeration is rejected and once when it lists a
  loudspeaker and no microphone; the store would have handed out a recorder.
\<close>

theorem no_microphone_aborts_witness:
  "since
     \<lparr>roomId = [0x21, 0x72],
      istate = \<lparr>recorder = None, recordingPhase = None, relHeights = [0, 0], seconds = 0\<rparr>,
      this_waveform = [], this_seconds = 0, scheduledAnimationFrame = False,
      animationFrameCallbacks = [], effects = []\<rparr>
     (fst (onRecordStartEndClick
        \<lparr>getDevices = Inl (Error ''denied''),
         store_startRecording =
           Inr \<lparr>start = Inr (), stop = Inr (), upload = Inr [0x6D, 0x78, 0x63],
                durationSeconds = 3 / 2, contentType = [0x6F, 0x67, 0x67], contentLength = 1200,
                playbackWaveform = [1 / 2, 1 / 4], isRecording = False\<rparr>,
         store_disposeRecording = Inr ()\<rparr>
        \<lparr>roomId = [0x21, 0x72],
         istate = \<lparr>recorder = None, recordingPhase = None, relHeights = [0, 0], seconds = 0\<rparr>,
         this_waveform = [], this_seconds = 0, scheduledAnimationFrame = False,
         animationFrameCallbacks = [], effects = []\<rparr>))
     = [GetDevices, ConsoleError ''Error getting devices: '' (Error ''denied''),
        CreateTrackedDialog ''Microphone Access Error'']
   \<and> noAudioInput (Some \<lparr>audiooutput = Some [[0x73]], audioinput = Some [], videoinput = None\<rparr>)
   \<and> onRecordStartEndClick
        \<lparr>getDevices = Inr (Some \<lparr>audiooutput = Some [[0x73]], audioinput = Some [], videoinput = None\<rparr>),
         store_startRecording =
           Inr \<lparr>start = Inr (), stop = Inr (), upload = Inr [0x6D, 0x78, 0x63],
                durationSeconds = 3 / 2, contentType = [0x6F, 0x67, 0x67], contentLength = 1200,
                playbackWaveform = [1 / 2, 1 / 4], isRecording = False\<rparr>,
         store_disposeRecording = Inr ()\<rparr>
        \<lparr>roomId = [0x21, 0x72],
         istate = \<lparr>recorder = None, recordingPhase = None, relHeights = [0, 0], seconds = 0\<rparr>,
         this_waveform = [], this_seconds = 0, scheduledAnimationFrame = False,
         animationFrameCallbacks = [], effects = []\<rparr>
     = (\<lparr>roomId = [0x21, 0x72],
         istate = \<lparr>recorder = None, recordingPhase = None, relHeights = [0, 0], seconds = 0\<rparr>,
         this_waveform = [], this_seconds = 0, scheduledAnimationFrame = False,
         animationFrameCallbacks = [],
         effects = [GetDevices, CreateTrackedDialog ''No Microphone Error'']\<rparr>, Inr ())"
  using
    no_microphone_aborts [of
      "\<lparr>roomId = [0x21, 0x72],
        istate = \<lparr>recorder = None, recordingPhase = None, relHeights = [0, 0], seconds = 0\<rparr>,
        this_waveform = [], this_seconds = 0, scheduledAnimationFrame = False,
        animationFrameCallbacks = [], effects = []\<rparr>"
      "\<lparr>getDevices = Inl (Error ''denied''),
        store_startRecording =
          Inr \<lparr>start = Inr (), stop = Inr (), upload = Inr [0x6D, 0x78, 0x63],
               durationSeconds = 3 / 2, contentType = [0x6F, 0x67, 0x67], contentLength = 1200,
               playbackWaveform = [1 / 2, 1 / 4], isRecording = False\<rparr>,
        store_disposeRecording = Inr ()\<rparr>"]
    no_microphone_aborts [of
      "\<lparr>roomId = [0x21, 0x72],
        istate = \<lparr>recorder = None, recordingPhase = None, relHeights = [0, 0], seconds = 0\<rparr>,
        this_waveform = [], this_seconds = 0, scheduledAnimationFrame = False,
        animationFrameCallbacks = [], effects = []\<rparr>"
      "\<lparr>getDevices = Inr (Some \<lparr>audiooutput = Some [[0x73]], audioinput = Some [], videoinput = None\<rparr>),
        store_startRecording =
          Inr \<lparr>start = Inr (), stop = Inr (), upload = Inr [0x6D, 0x78, 0x63],
               durationSeconds = 3 / 2, contentType = [0x6F, 0x67, 0x67], contentLength = 1200,
               playbackWaveform = [1 / 2, 1 / 4], isRecording = False\<rparr>,
        store_disposeRecording = Inr ()\<rparr>"]
  by (simp add: onRecordStartEndClick_def noAudioInput_def since_def accessError_def emit_def)

subsection \<open>Sending\<close>

text \<open>
  C7, as the code has it. A send with an active recorder stops the recorder first. When
  the stop fails, nothing else happens and the send fails with that error; when the stop
  completes, the upload follows, and when the upload fails, nothing else happens and the
  send fails with that error: neither the message send nor the disposal takes place. When
  stop and upload complete, the operations are, in this order, stop, upload, message send
  and the disposal of the recording session, which is requested whatever becomes of the
  message send; the send then settles as the disposal does.
\<close>

theorem send_order:
  assumes "recorder (istate t) = Some r"
  shows "(stop r = Inl e \<longrightarrow>
            operations (since t (fst (send env t))) = [RecorderStop]
            \<and> snd (send env t) = Inl e)
         \<and> (stop r = Inr () \<and> upload r = Inl e \<longrightarrow>
            operations (since t (fst (send env t))) = [RecorderStop, RecorderUpload]
            \<and> snd (send env t) = Inl e)
         \<and> (stop r = Inr () \<and> upload r = Inr mxc \<longrightarrow>
            operations (since t (fst (send env t))) =
              [RecorderStop, RecorderUpload, SendMessage (roomId t) (voiceMessage r mxc),
               DisposeRecording]
            \<and> snd (send env t) = store_disposeRecording env)"
  using assms
  by (auto simp: send_def Let_def since_def operations_def emit_fields setState_fields
      disposeRecording_def split: sum.splits)

text \<open>
  A tile with a recorder whose stop and upload complete: the four operations in order,
  and the tile is left without a recorder.
\<close>

theorem send_order_witness:
  "operations (since
     \<lparr>roomId = [0x21, 0x72],
      istate = \<lparr>recorder =
                  Some \<lparr>start = Inr (), stop = Inr (), upload = Inr [0x6D, 0x78, 0x63],
                        durationSeconds = 3 / 2, contentType = [0x6F, 0x67, 0x67],
                        contentLength = 1200, playbackWaveform = [1 / 2, 1 / 4],
                        isRecording = False\<rparr>,
                recordingPhase = Some Started, relHeights = [0, 0], seconds = 0\<rparr>,
      this_waveform = [], this_seconds = 0, scheduledAnimationFrame = False,
      animationFrameCallbacks = [], effects = []\<rparr>
     (fst (send
        \<lparr>getDevices = Inr None, store_startRecording = Inl (Error ''not asked''),
         store_disposeRecording = Inr ()\<rparr>
        \<lparr>roomId = [0x21, 0x72],
         istate = \<lparr>recorder =
                     Some \<lparr>start = Inr (), stop = Inr (), upload = Inr [0x6D, 0x78, 0x63],
                           durationSeconds = 3 / 2, contentType = [0x6F, 0x67, 0x67],
                           contentLength = 1200, playbackWaveform = [1 / 2, 1 / 4],
                           isRecording = False\<rparr>,
                   recordingPhase = Some Started, relHeights = [0, 0], seconds = 0\<rparr>,
         this_waveform = [], this_seconds = 0, scheduledAnimationFrame = False,
         animationFrameCallbacks = [], effects = []\<rparr>)))
     = [RecorderStop, RecorderUpload,
        SendMessage [0x21, 0x72]
          (voiceMessage
             \<lparr>start = Inr (), stop = Inr (), upload = Inr [0x6D, 0x78, 0x63],
              durationSeconds = 3 / 2, contentType = [0x6F, 0x67, 0x67],
              contentLength = 1200, playbackWaveform = [1 / 2, 1 / 4],
              isRecording = False\<rparr> [0x6D, 0x78, 0x63]),
        DisposeRecording]
   \<and> recorder (istate (fst (send
        \<lparr>getDevices = Inr None, store_startRecording = Inl (Error ''not asked''),
         store_disposeRecording = Inr ()\<rparr>
        \<lparr>roomId = [0x21, 0x72],
         istate = \<lparr>recorder =
                     Some \<lparr>start = Inr (), stop = Inr (), upload = Inr [0x6D, 0x78, 0x63],
                           durationSeconds = 3 / 2, contentType = [0x6F, 0x67, 0x67],
                           contentLength = 1200, playbackWaveform = [1 / 2, 1 / 4],
                           isRecording = False\<rparr>,
                   recordingPhase = Some Started, relHeights = [0, 0], seconds = 0\<rparr>,
         this_waveform = [], this_seconds = 0, scheduledAnimationFrame = False,
         animationFrameCallbacks = [], effects = []\<rparr>))) = None"
  using
    send_order [of
      "\<lparr>roomId = [0x21, 0x72],
        istate = \<lparr>recorder =
                    Some \<lparr>start = Inr (), stop = Inr (), upload = Inr [0x6D, 0x78, 0x63],
                          durationSeconds = 3 / 2, contentType = [0x6F, 0x67, 0x67],
                          contentLength = 1200, playbackWaveform = [1 / 2, 1 / 4],
                          isRecording = False\<rparr>,
                  recordingPhase = Some Started, relHeights = [0, 0], seconds = 0\<rparr>,
        this_waveform = [], this_seconds = 0, scheduledAnimationFrame = False,
        animationFrameCallbacks = [], effects = []\<rparr>"
      "\<lparr>start = Inr (), stop = Inr (), upload = Inr [0x6D, 0x78, 0x63],
        durationSeconds = 3 / 2, contentType = [0x6F, 0x67, 0x67],
        contentLength = 1200, playbackWaveform = [1 / 2, 1 / 4],
        isRecording = False\<rparr>"
      "Error ''none''"
      "\<lparr>getDevices = Inr None, store_startRecording = Inl (Error ''not asked''),
        store_disposeRecording = Inr ()\<rparr>"
      "[0x6D, 0x78, 0x63]"]
  by (simp add: send_def disposeRecording_def emit_fields setState_fields)

text \<open>
  The same tile with a recorder whose upload is rejected: the send ends after the upload,
  with that error; no message is sent, the recording session is not disposed, and the
  tile keeps its recorder.
\<close>

theorem send_upload_rejected_counterexample:
  "send
     \<lparr>getDevices = Inr None, store_startRecording = Inl (Error ''not asked''),
      store_disposeRecording = Inr ()\<rparr>
     \<lparr>roomId = [0x21, 0x72],
      istate = \<lparr>recorder =
                  Some \<lparr>start = Inr (), stop = Inr (), upload = Inl (Error ''upload failed''),
                        durationSeconds = 3 / 2, contentType = [0x6F, 0x67, 0x67],
                        contentLength = 1200, playbackWaveform = [1 / 2, 1 / 4],
                        isRecording = False\<rparr>,
                recordingPhase = Some Started, relHeights = [0, 0], seconds = 0\<rparr>,
      this_waveform = [], this_seconds = 0, scheduledAnimationFrame = False,
      animationFrameCallbacks = [], effects = []\<rparr>
   = (\<lparr>roomId = [0x21, 0x72],
       istate = \<lparr>recorder =
                   Some \<lparr>start = Inr (), stop = Inr (), upload = Inl (Error ''upload failed''),
                         durationSeconds = 3 / 2, contentType = [0x6F, 0x67, 0x67],
                         contentLength = 1200, playbackWaveform = [1 / 2, 1 / 4],
                         isRecording = False\<rparr>,
                 recordingPhase = Some Started, relHeights = [0, 0], seconds = 0\<rparr>,
       this_waveform = [], this_seconds = 0, scheduledAnimationFrame = False,
       animationFrameCallbacks = [], effects = [RecorderStop, RecorderUpload]\<rparr>,
      Inl (Error ''upload failed''))
   \<and> DisposeRecording \<notin> set [RecorderStop, RecorderUpload]"
  by (simp add: send_def emit_def)

subsection \<open>Live updates are coalesced\<close>

lemma flush_fields:
  "istate (flush u t) =
     (istate t)\<lparr>relHeights := map (\<lambda>b. percentageOf u b 0 (1 / 2))
                  (arrayFastResample u (this_waveform t) (RECORDING_PLAYBACK_SAMPLES u)),
                seconds := this_seconds t\<rparr>"
  "scheduledAnimationFrame (flush u t) = False"
  "animationFrameCallbacks (flush u t) = animationFrameCallbacks t"
  "effects (flush u t) = effects t @ [SetState (istate (flush u t))]"
  by (auto simp: flush_def Let_def setState_fields)

lemma onRecordingUpdate_fields:
  "istate (onRecordingUpdate update t) = istate t"
  "this_waveform (onRecordingUpdate update t) = waveform update"
  "this_seconds (onRecordingUpdate update t) = timeSeconds update"
  "scheduledAnimationFrame (onRecordingUpdate update t) = True"
  "animationFrameCallbacks (onRecordingUpdate update t) =
     (if scheduledAnimationFrame t then animationFrameCallbacks t
      else animationFrameCallbacks t @ [Flush])"
  "effects (onRecordingUpdate update t) =
     (if scheduledAnimationFrame t then effects t else effects t @ [RequestAnimationFrame])"
  by (simp_all add: onRecordingUpdate_def Let_def emit_fields)

text \<open>The handlers that do not deal with live data leave the flag and the waiting callbacks alone.\<close>

lemma disposeRecording_frame:
  "scheduledAnimationFrame (fst (disposeRecording env t)) = scheduledAnimationFrame t
   \<and> animationFrameCallbacks (fst (disposeRecording env t)) = animationFrameCallbacks t"
  by (simp add: disposeRecording_def Let_def emit_fields setState_fields split: sum.splits)

lemma send_frame:
  "scheduledAnimationFrame (fst (send env t)) = scheduledAnimationFrame t
   \<and> animationFrameCallbacks (fst (send env t)) = animationFrameCallbacks t"
  by (simp add: send_def Let_def emit_fields disposeRecording_frame split: option.splits sum.splits)

lemma onRecordStartEndClick_frame:
  "scheduledAnimationFrame (fst (onRecordStartEndClick env t)) = scheduledAnimationFrame t
   \<and> animationFrameCallbacks (fst (onRecordStartEndClick env t)) = animationFrameCallbacks t"
  by (simp add: onRecordStartEndClick_def Let_def startFailed_def accessError_def
      emit_fields setState_fields split: option.splits sum.splits)

lemma onUpdateEvent_frame:
  "scheduledAnimationFrame (onUpdateEvent ev t) = scheduledAnimationFrame t
   \<and> animationFrameCallbacks (onUpdateEvent ev t) = animationFrameCallbacks t"
  by (simp add: onUpdateEvent_def setState_fields)

lemma pending_constructor: "pending (constructor u room)"
  by (simp add: pending_def constructor_def)

lemma pending_onRecordingUpdate: "pending t \<Longrightarrow> pending (onRecordingUpdate update t)"
  by (simp add: pending_def onRecordingUpdate_fields)

lemma animationFrame_scheduled:
  "pending t \<Longrightarrow> scheduledAnimationFrame t \<Longrightarrow>
     animationFrame u t = flush u (t\<lparr>animationFrameCallbacks := []\<rparr>)"
  by (simp add: pending_def animationFrame_def)

lemma animationFrame_idle:
  "pending t \<Longrightarrow> \<not> scheduledAnimationFrame t \<Longrightarrow> animationFrame u t = t"
  by (simp add: pending_def animationFrame_def)

lemma pending_animationFrame:
  assumes "pending t"
  shows "pending (animationFrame u t)"
proof (cases "scheduledAnimationFrame t")
  case True
  with assms show ?thesis
    by (simp add: animationFrame_scheduled) (simp add: pending_def flush_fields)
next
  case False
  with assms show ?thesis
    by (simp add: animationFrame_idle)
qed

lemma pending_ticks: "pending t \<Longrightarrow> pending (ticks u history t)"
proof (induction u history t rule: ticks.induct)
  case (1 u t)
  then show ?case by simp
next
  case (2 u update rest t)
  then show ?case by (simp add: pending_onRecordingUpdate)
next
  case (3 u rest t)
  then show ?case by (simp add: pending_animationFrame)
next
  case (4 u env rest t)
  from 4(2) have "pending (fst (onRecordStartEndClick env t))"
    by (simp add: pending_def onRecordStartEndClick_frame)
  with 4(1) show ?case by simp
next
  case (5 u env rest t)
  from 5(2) have "pending (fst (send env t))"
    by (simp add: pending_def send_frame)
  with 5(1) show ?case by simp
next
  case (6 u env rest t)
  from 6(2) have "pending (fst (onCancel env t))"
    by (simp add: pending_def onCancel_def disposeRecording_frame)
  with 6(1) show ?case by simp
next
  case (7 u ev rest t)
  from 7(2) have "pending (onUpdateEvent ev t)"
    by (simp add: pending_def onUpdateEvent_frame)
  with 7(1) show ?case by simp
qed

lemma updates_Nil: "updates [] t = t"
  by (simp add: updates_def)

lemma updates_snoc: "updates (us @ [update]) t = onRecordingUpdate update (updates us t)"
  by (simp add: updates_def)

lemma pending_updates: "pending t \<Longrightarrow> pending (updates us t)"
  by (induction us rule: rev_induct)
     (simp_all add: updates_Nil updates_snoc pending_onRecordingUpdate)

lemma updates_istate: "istate (updates us t) = istate t"
  by (induction us rule: rev_induct)
     (simp_all add: updates_Nil updates_snoc onRecordingUpdate_fields)

lemma updates_effects:
  "effects (updates us t) =
     (if scheduledAnimationFrame t \<or> us = [] then effects t
      else effects t @ [RequestAnimationFrame])
   \<and> scheduledAnimationFrame (updates us t) = (scheduledAnimationFrame t \<or> us \<noteq> [])"
proof (induction us rule: rev_induct)
  case Nil
  show ?case by (simp add: updates_Nil)
next
  case (snoc update us)
  then show ?case
    by (auto simp: updates_snoc updates_Nil onRecordingUpdate_fields)
qed

lemma updates_last:
  "us \<noteq> [] \<Longrightarrow>
     this_waveform (updates us t) = waveform (last us)
     \<and> this_seconds (updates us t) = timeSeconds (last us)
     \<and> scheduledAnimationFrame (updates us t)"
  by (cases us rule: rev_cases) (simp_all add: updates_snoc onRecordingUpdate_fields)

lemma frame_setStates:
  "pending t \<Longrightarrow>
     filter isSetState (since t (animationFrame u t)) =
       (if scheduledAnimationFrame t
        then [SetState ((istate t)\<lparr>relHeights := map (\<lambda>b. percentageOf u b 0 (1 / 2))
                 (arrayFastResample u (this_waveform t) (RECORDING_PLAYBACK_SAMPLES u)),
               seconds := this_seconds t\<rparr>)]
        else [])"
  by (cases "scheduledAnimationFrame t")
     (simp_all add: animationFrame_scheduled animationFrame_idle since_def flush_fields)

text \<open>
  C8. Let \<open>t\<close> be a tile at any moment of its life, and let a burst of one or more live
  updates reach it before the next display refresh. A refresh of \<open>t\<close> itself would make at
  most one view-state update. After the burst the flag is set and exactly one flush is
  waiting: the burst has requested an animation frame once if none was pending, and not
  at all if one was. The refresh after the burst makes exactly one view-state update,
  computed from the waveform and the time of the last update of the burst; it clears the
  flag and leaves no callback waiting.
\<close>

theorem updates_coalesced:
  assumes "t = ticks u history (constructor u room)"
    and "us \<noteq> []"
  shows "let t1 = updates us t; t2 = animationFrame u t1 in
           length (filter isSetState (since t (animationFrame u t))) \<le> 1
           \<and> scheduledAnimationFrame t1
           \<and> animationFrameCallbacks t1 = [Flush]
           \<and> since t t1 = (if scheduledAnimationFrame t then [] else [RequestAnimationFrame])
           \<and> filter isSetState (since t1 t2) =
               [SetState ((istate t)\<lparr>relHeights := map (\<lambda>b. percentageOf u b 0 (1 / 2))
                   (arrayFastResample u (waveform (last us)) (RECORDING_PLAYBACK_SAMPLES u)),
                 seconds := timeSeconds (last us)\<rparr>)]
           \<and> istate t2 =
               (istate t)\<lparr>relHeights := map (\<lambda>b. percentageOf u b 0 (1 / 2))
                   (arrayFastResample u (waveform (last us)) (RECORDING_PLAYBACK_SAMPLES u)),
                 seconds := timeSeconds (last us)\<rparr>
           \<and> \<not> scheduledAnimationFrame t2
           \<and> animationFrameCallbacks t2 = []"
proof -
  have p: "pending t"
    unfolding assms(1) by (rule pending_ticks) (rule pending_constructor)
  have p1: "pending (updates us t)"
    using p by (rule pending_updates)
  have s1: "scheduledAnimationFrame (updates us t)"
    using updates_last [OF assms(2)] by simp
  have q1: "animationFrameCallbacks (updates us t) = [Flush]"
    using p1 s1 by (simp add: pending_def)
  have any: "length (filter isSetState (since t (animationFrame u t))) \<le> 1"
    using frame_setStates [OF p] by simp
  have req: "since t (updates us t) =
               (if scheduledAnimationFrame t then [] else [RequestAnimationFrame])"
    using assms(2) by (simp add: since_def updates_effects)
  have one: "filter isSetState (since (updates us t) (animationFrame u (updates us t))) =
               [SetState ((istate t)\<lparr>relHeights := map (\<lambda>b. percentageOf u b 0 (1 / 2))
                   (arrayFastResample u (waveform (last us)) (RECORDING_PLAYBACK_SAMPLES u)),
                 seconds := timeSeconds (last us)\<rparr>)]"
    using frame_setStates [OF p1] s1 updates_last [OF assms(2)]
    by (simp add: updates_istate)
  have af: "animationFrame u (updates us t) =
              flush u ((updates us t)\<lparr>animationFrameCallbacks := []\<rparr>)"
    using p1 s1 by (rule animationFrame_scheduled)
  have st: "istate (animationFrame u (updates us t)) =
               (istate t)\<lparr>relHeights := map (\<lambda>b. percentageOf u b 0 (1 / 2))
                   (arrayFastResample u (waveform (last us)) (RECORDING_PLAYBACK_SAMPLES u)),
                 seconds := timeSeconds (last us)\<rparr>"
    using updates_last [OF assms(2)]
    by (simp add: af flush_fields updates_istate)
  have fl: "\<not> scheduledAnimationFrame (animationFrame u (updates us t))"
    by (simp add: af flush_fields)
  have qu: "animationFrameCallbacks (animationFrame u (updates us t)) = []"
    by (simp add: af flush_fields)
  from any s1 q1 req one st fl qu show ?thesis
    by (simp add: Let_def)
qed

text \<open>
  A tile that has seen one update and no refresh yet (a flush is pending), with helpers
  that keep the first two samples and rescale linearly. Two more updates request no
  further animation frame, and the refresh makes one view-state update, from the second
  of them.
\<close>

theorem updates_coalesced_witness:
  "since
     (ticks
        \<lparr>RECORDING_PLAYBACK_SAMPLES = 2, arraySeed = (\<lambda>v n. replicate n v),
         arrayFastResample = (\<lambda>xs n. take n xs),
         percentageOf = (\<lambda>v lo hi. (v - lo) / (hi - lo))\<rparr>
        [Update \<lparr>waveform = [0, 0, 0], timeSeconds = 0\<rparr>]
        (constructor
           \<lparr>RECORDING_PLAYBACK_SAMPLES = 2, arraySeed = (\<lambda>v n. replicate n v),
            arrayFastResample = (\<lambda>xs n. take n xs),
            percentageOf = (\<lambda>v lo hi. (v - lo) / (hi - lo))\<rparr> [0x21, 0x72]))
     (updates
        [\<lparr>waveform = [1 / 8, 1 / 8, 0], timeSeconds = 1\<rparr>,
         \<lparr>waveform = [1 / 4, 1 / 2, 1 / 8], timeSeconds = 2\<rparr>]
        (ticks
           \<lparr>RECORDING_PLAYBACK_SAMPLES = 2, arraySeed = (\<lambda>v n. replicate n v),
            arrayFastResample = (\<lambda>xs n. take n xs),
            percentageOf = (\<lambda>v lo hi. (v - lo) / (hi - lo))\<rparr>
           [Update \<lparr>waveform = [0, 0, 0], timeSeconds = 0\<rparr>]
           (constructor
              \<lparr>RECORDING_PLAYBACK_SAMPLES = 2, arraySeed = (\<lambda>v n. replicate n v),
               arrayFastResample = (\<lambda>xs n. take n xs),
               percentageOf = (\<lambda>v lo hi. (v - lo) / (hi - lo))\<rparr> [0x21, 0x72])))
     = []
   \<and> filter isSetState (effects
       (animationFrame
          \<lparr>RECORDING_PLAYBACK_SAMPLES = 2, arraySeed = (\<lambda>v n. replicate n v),
           arrayFastResample = (\<lambda>xs n. take n xs),
           percentageOf = (\<lambda>v lo hi. (v - lo) / (hi - lo))\<rparr>
          (updates
             [\<lparr>waveform = [1 / 8, 1 / 8, 0], timeSeconds = 1\<rparr>,
              \<lparr>waveform = [1 / 4, 1 / 2, 1 / 8], timeSeconds = 2\<rparr>]
             (ticks
                \<lparr>RECORDING_PLAYBACK_SAMPLES = 2, arraySeed = (\<lambda>v n. replicate n v),
                 arrayFastResample = (\<lambda>xs n. take n xs),
                 percentageOf = (\<lambda>v lo hi. (v - lo) / (hi - lo))\<rparr>
                [Update \<lparr>waveform = [0, 0, 0], timeSeconds = 0\<rparr>]
                (constructor
                   \<lparr>RECORDING_PLAYBACK_SAMPLES = 2, arraySeed = (\<lambda>v n. replicate n v),
                    arrayFastResample = (\<lambda>xs n. take n xs),
                    percentageOf = (\<lambda>v lo hi. (v - lo) / (hi - lo))\<rparr> [0x21, 0x72])))))
     = [SetState \<lparr>recorder = None, recordingPhase = None, relHeights = [1 / 2, 1], seconds = 2\<rparr>]"
  using
    updates_coalesced [of
      "ticks
        \<lparr>RECORDING_PLAYBACK_SAMPLES = 2, arraySeed = (\<lambda>v n. replicate n v),
         arrayFastResample = (\<lambda>xs n. take n xs),
         percentageOf = (\<lambda>v lo hi. (v - lo) / (hi - lo))\<rparr>
        [Update \<lparr>waveform = [0, 0, 0], timeSeconds = 0\<rparr>]
        (constructor
           \<lparr>RECORDING_PLAYBACK_SAMPLES = 2, arraySeed = (\<lambda>v n. replicate n v),
            arrayFastResample = (\<lambda>xs n. take n xs),
            percentageOf = (\<lambda>v lo hi. (v - lo) / (hi - lo))\<rparr> [0x21, 0x72])"
      "\<lparr>RECORDING_PLAYBACK_SAMPLES = 2, arraySeed = (\<lambda>v n. replicate n v),
        arrayFastResample = (\<lambda>xs n. take n xs),
        percentageOf = (\<lambda>v lo hi. (v - lo) / (hi - lo))\<rparr>"
      "[Update \<lparr>waveform = [0, 0, 0], timeSeconds = 0\<rparr>]"
      "[0x21, 0x72]"
      "[\<lparr>waveform = [1 / 8, 1 / 8, 0], timeSeconds = 1\<rparr>,
        \<lparr>waveform = [1 / 4, 1 / 2, 1 / 8], timeSeconds = 2\<rparr>]"]
  by (simp add: constructor_def onRecordingUpdate_def updates_def animationFrame_def flush_def
      setState_def componentDidUpdate_def emit_def since_def Let_def numeral_2_eq_2)

end
